theory Spec2Isabelle
  imports Main "HOL-Library.Sublist"
begin

section \<open>Values, heap objects and options\<close>

text \<open>
  The document model of \<^verbatim>\<open>lib/basemodel.js\<close> works on JavaScript values. A value is a
  primitive or a reference to a heap object; arrays, plain objects, dates and document
  instances live in the heap, since the serializer mutates and copies them and several
  properties depend on which reference a result holds. Numbers are integers here
  (floating point is outside the model), a date is its time value in milliseconds.
\<close>

type_synonym addr = nat

datatype jsval = Undefined | Null | Bool bool | Num int | Str string | Ref addr

datatype error = TypeError | Unmodelled

text \<open>JavaScript's \<^verbatim>\<open>Boolean(v)\<close>: every object reference is truthy.\<close>

fun truthy :: "jsval \<Rightarrow> bool" where
  "truthy Undefined = False"
| "truthy Null = False"
| "truthy (Bool b) = b"
| "truthy (Num n) = (n \<noteq> 0)"
| "truthy (Str s) = (s \<noteq> [])"
| "truthy (Ref a) = True"

text \<open>
  What a \<^verbatim>\<open>transform(doc, ret, options)\<close> function hands back: nothing, the (possibly
  edited) plain mapping, or some other value. User functions are pure in this model: a
  transform sees the entries of the built mapping.
\<close>

datatype xformed = XUndefined | XObject "(string \<times> jsval) list" | XValue jsval

datatype topt = TVal jsval | TFun "(string \<times> jsval) list \<Rightarrow> xformed"

text \<open>The option object of \<^verbatim>\<open>toObject\<close>/\<^verbatim>\<open>toJSON\<close>; an absent key is \<open>Undefined\<close>.\<close>

record options =
  transform :: topt
  json :: jsval
  minimize :: jsval
  virtuals :: jsval
  serializable :: jsval
  dateToISO :: jsval
  useSchemaOptions :: jsval

definition emptyOptions :: options where
  "emptyOptions = \<lparr> transform = TVal Undefined, json = Undefined, minimize = Undefined,
     virtuals = Undefined, serializable = Undefined, dateToISO = Undefined,
     useSchemaOptions = Undefined \<rparr>"

section \<open>The order of the properties of an object\<close>

text \<open>
  An object of the runtime keeps its properties in the order in which they were created
  and enumerates them (\<^verbatim>\<open>Object.keys\<close>, \<^verbatim>\<open>for ... in\<close>, lodash's \<^verbatim>\<open>_.each\<close> and
  \<^verbatim>\<open>_.clone\<close>) with the names that are array indices first, in ascending order, and
  the other names after them, in the order of their creation. An array index is the
  decimal numeral, without a leading zero, of a number below \<open>2\<^sup>3\<^sup>2 - 1\<close>. A list of
  properties in this model is in the order of creation.
\<close>

definition digitValue :: "char \<Rightarrow> nat option" where
  "digitValue c =
     (let n = (of_char c :: nat) in if 48 \<le> n \<and> n \<le> 57 then Some (n - 48) else None)"

fun readDigits :: "string \<Rightarrow> nat \<Rightarrow> nat option" where
  "readDigits [] n = Some n"
| "readDigits (c # cs) n =
     (case digitValue c of None \<Rightarrow> None | Some d \<Rightarrow> readDigits cs (10 * n + d))"

definition arrayIndex :: "string \<Rightarrow> nat option" where
  "arrayIndex s =
     (if s = [] \<or> (hd s = CHR ''0'' \<and> tl s \<noteq> []) then None
      else (case readDigits s 0 of
              Some n \<Rightarrow> if n < 4294967295 then Some n else None
            | None \<Rightarrow> None))"

definition isIndexEntry :: "string \<times> 'a \<Rightarrow> bool" where
  "isIndexEntry kv = (arrayIndex (fst kv) \<noteq> None)"

definition indexOfEntry :: "string \<times> 'a \<Rightarrow> nat" where
  "indexOfEntry kv = (case arrayIndex (fst kv) of Some n \<Rightarrow> n | None \<Rightarrow> 0)"

definition propertyOrder :: "(string \<times> 'a) list \<Rightarrow> (string \<times> 'a) list" where
  "propertyOrder kvs =
     sort_key indexOfEntry (filter isIndexEntry kvs) @ filter (\<lambda>kv. \<not> isIndexEntry kv) kvs"

section \<open>Schema\<close>

text \<open>
  A field descriptor (the \<^verbatim>\<open>properties\<close> object of one field). The schema compiler and
  the typecasts are not part of the sources: a descriptor carries its typecast (cast and
  constraint checks of the declared type, \<open>None\<close> when the value is rejected) as a
  function; the type \<^verbatim>\<open>'any'\<close> never casts. Defaults, getters and virtual getters that
  are functions read the sibling fields through a reader of the instance. A literal
  default is written in the schema definition and is only ever cloned: it is a tree
  here, which the clone builds afresh in the heap.
\<close>

datatype lit =
    LNull | LBool bool | LNum int | LStr string | LDate int
  | LArray "lit list" | LObject "(string \<times> lit) list"

datatype dflt = Literal lit | Producer "(string \<Rightarrow> jsval) \<Rightarrow> jsval"

record virt =
  vget :: "(string \<Rightarrow> jsval) \<Rightarrow> jsval"
  vset :: "(jsval \<Rightarrow> (string \<times> jsval) list) option"

record properties =
  dtype :: string
  typecast :: "jsval \<Rightarrow> jsval option"
  readOnly :: bool
  invisible :: bool
  virtual :: "virt option"
  dserializable :: jsval
  dflt :: "dflt option"
  dtransform :: "(jsval \<Rightarrow> jsval) option"
  validate :: "(jsval \<Rightarrow> bool) option"
  getter :: "(jsval \<Rightarrow> jsval) option"

text \<open>The descriptor \<^verbatim>\<open>{type: 'any'}\<close> that a non-strict write adds.\<close>

definition anyDescriptor :: properties where
  "anyDescriptor = \<lparr> dtype = ''any'', typecast = Some, readOnly = False, invisible = False,
     virtual = None, dserializable = Undefined, dflt = None, dtransform = None,
     validate = None, getter = None \<rparr>"

text \<open>
  A schema: its fields in the order of their declaration (the properties of the object
  \<^verbatim>\<open>schema.descriptor\<close> in the order of their creation), and its options. A loop
  \<^verbatim>\<open>_.each(schema.descriptor, ...)\<close> visits the fields in the order in which the runtime
  enumerates them.
\<close>

record schema =
  descriptor :: "(string \<times> properties) list"
  strict :: bool
  dotNotation :: bool
  toObjectOpt :: "options option"
  toJSONOpt :: "options option"

text \<open>
  The descriptor is a plain object (the schema class is not in the sources). The read
  \<^verbatim>\<open>schema.descriptor[name]\<close> of line 123 finds a declared field, and it finds the
  members that every plain object inherits from \<^verbatim>\<open>Object.prototype\<close>; all of these are
  truthy.
\<close>

definition objectPrototypeMembers :: "string list" where
  "objectPrototypeMembers =
     [''constructor'', ''__defineGetter__'', ''__defineSetter__'', ''hasOwnProperty'',
      ''__lookupGetter__'', ''__lookupSetter__'', ''isPrototypeOf'', ''propertyIsEnumerable'',
      ''toString'', ''valueOf'', ''__proto__'', ''toLocaleString'']"

definition inDescriptor :: "schema \<Rightarrow> string \<Rightarrow> bool" where
  "inDescriptor sch name =
     (map_of (descriptor sch) name \<noteq> None \<or> name \<in> set objectPrototypeMembers)"

section \<open>Resolving the serialization options\<close>

text \<open>
  \<^verbatim>\<open>_prepareToObjectOptions(options, json)\<close>. The argument is \<open>Some o\<close> for a plain
  \<^verbatim>\<open>Object\<close> and \<open>None\<close> for anything else (no argument, a primitive, an instance of
  another class); \<open>js\<close> is the \<^verbatim>\<open>json\<close> flag, true for \<^verbatim>\<open>toJSON\<close> and absent for
  \<^verbatim>\<open>toObject\<close>.
\<close>

definition isBoolean :: "jsval \<Rightarrow> bool" where
  "isBoolean v = (case v of Bool b \<Rightarrow> True | _ \<Rightarrow> False)"

definition defaultMinimizeOption :: "schema \<Rightarrow> bool \<Rightarrow> jsval" where
  "defaultMinimizeOption sch js =
     (case (if js then toJSONOpt sch else toObjectOpt sch) of
        Some so \<Rightarrow> if isBoolean (minimize so) then minimize so else Bool True
      | None \<Rightarrow> Bool True)"

definition fillDefaults :: "schema \<Rightarrow> bool \<Rightarrow> options \<Rightarrow> options" where
  "fillDefaults sch js opts =
     opts \<lparr> transform := (if transform opts = TVal Undefined then TVal (Bool True)
                          else transform opts),
            json := (if json opts = Undefined then (if js then Bool True else Undefined)
                     else json opts),
            minimize := (if minimize opts = Undefined then defaultMinimizeOption sch js
                         else minimize opts) \<rparr>"

definition schemaLevelOptions :: "schema \<Rightarrow> bool \<Rightarrow> options" where
  "schemaLevelOptions sch js =
     (if js
      then (case toJSONOpt sch of Some so \<Rightarrow> so | None \<Rightarrow> emptyOptions)
             \<lparr> json := Bool True, useSchemaOptions := Bool True \<rparr>
      else (case toObjectOpt sch of Some so \<Rightarrow> so | None \<Rightarrow> emptyOptions)
             \<lparr> json := Bool False, useSchemaOptions := Bool True \<rparr>)"

definition prepareToObjectOptions :: "schema \<Rightarrow> options option \<Rightarrow> bool \<Rightarrow> options" where
  "prepareToObjectOptions sch arg js =
     fillDefaults sch js
       (case arg of
          Some opts \<Rightarrow>
            if truthy (useSchemaOptions opts) then schemaLevelOptions sch js else opts
        | None \<Rightarrow> schemaLevelOptions sch js)"

section \<open>Document instances and the heap\<close>

text \<open>
  A document instance: its schema (shared, by address), the raw values \<^verbatim>\<open>_obj\<close>, the
  own data properties that a write defined on the instance itself (they are no fields),
  the error log \<^verbatim>\<open>_errors\<close>, the field names for which the constructor or
  \<^verbatim>\<open>_addToSchema\<close> defined an accessor pair on \<^verbatim>\<open>_getset\<close>, and whether the class was
  built extending \<^verbatim>\<open>EventEmitter\<close>.
\<close>

record setterError =
  errorMessage :: string
  setValue :: jsval
  originalValue :: jsval
  fieldSchema :: string

record document =
  schemaRef :: addr
  obj :: "(string \<times> jsval) list"
  own :: "(string \<times> jsval) list"
  errors :: "setterError list"
  getset :: "string list"
  extendEventEmitter :: bool

datatype hobj =
    HArray "jsval list"
  | HObject "(string \<times> jsval) list"
  | HDate int
  | HModel document

text \<open>
  The state of the program: the heap, the schemas (each shared by the instances of its
  model) and the next free address. An address never allocated holds an empty plain
  object.
\<close>

record world =
  heap :: "addr \<Rightarrow> hobj"
  schemas :: "addr \<Rightarrow> schema"
  nextAddr :: addr

definition alloc :: "world \<Rightarrow> hobj \<Rightarrow> addr \<times> world" where
  "alloc w ob = (nextAddr w, w \<lparr> heap := (heap w)(nextAddr w := ob), nextAddr := Suc (nextAddr w) \<rparr>)"

definition allocAll :: "world \<Rightarrow> hobj list \<Rightarrow> world" where
  "allocAll w obs = foldl (\<lambda>w' ob. snd (alloc w' ob)) w obs"

definition store :: "world \<Rightarrow> addr \<Rightarrow> hobj \<Rightarrow> world" where
  "store w a ob = w \<lparr> heap := (heap w)(a := ob) \<rparr>"

text \<open>Reading and assigning a property of a plain mapping (\<^verbatim>\<open>o[k]\<close>, \<^verbatim>\<open>o[k] = v\<close>).\<close>

definition getProp :: "(string \<times> jsval) list \<Rightarrow> string \<Rightarrow> jsval" where
  "getProp kvs k = (case map_of kvs k of Some v \<Rightarrow> v | None \<Rightarrow> Undefined)"

fun assign :: "string \<Rightarrow> jsval \<Rightarrow> (string \<times> jsval) list \<Rightarrow> (string \<times> jsval) list" where
  "assign k v [] = [(k, v)]"
| "assign k v ((k', v') # kvs) = (if k = k' then (k, v) # kvs else (k', v') # assign k v kvs)"

text \<open>
  What the runtime and the libraries provide: \<^verbatim>\<open>Date.prototype.toISOString\<close>, lodash's
  path functions \<^verbatim>\<open>_.get\<close> and \<^verbatim>\<open>_.set\<close> (used for dot notation), the deep
  \<^verbatim>\<open>clone\<close> of the values given to a constructor, and the own property names of a
  fresh \<^verbatim>\<open>EventEmitter\<close> (line 11), which differ between versions of the runtime. A
  path write may throw after it changed the state: it returns the error, if any, and the
  state. A clone returns its result and the objects it creates, which are allocated in
  that order.
\<close>

record env =
  toISOString :: "int \<Rightarrow> string"
  lodashGet :: "world \<Rightarrow> addr \<Rightarrow> string \<Rightarrow> jsval"
  lodashSet :: "world \<Rightarrow> addr \<Rightarrow> string \<Rightarrow> jsval \<Rightarrow> error option \<times> world"
  clone :: "world \<Rightarrow> jsval \<Rightarrow> jsval \<times> hobj list"
  eventEmmiterInternals :: "string list"

section \<open>Reading a field\<close>

text \<open>
  Modelled from the spec: the get accessor that \<^verbatim>\<open>defineProperty\<close> of
  \<^verbatim>\<open>lib/basemodel.utils.js\<close> (not in the sources) binds to a field. The spec: the
  value is read from the value store, "if a \<^verbatim>\<open>get\<close> transform is present, apply it to
  the stored value without mutating storage"; a virtual field "has no backing storage
  slot", its \<^verbatim>\<open>get\<close> "is computed from other fields".
\<close>

definition plainGet :: "schema \<Rightarrow> document \<Rightarrow> string \<Rightarrow> jsval" where
  "plainGet sch inst index =
     (case map_of (descriptor sch) index of
        None \<Rightarrow> Undefined
      | Some p \<Rightarrow>
          (case getter p of
             Some g \<Rightarrow> g (getProp (obj inst) index)
           | None \<Rightarrow> getProp (obj inst) index))"

definition fieldGet :: "schema \<Rightarrow> document \<Rightarrow> string \<Rightarrow> jsval" where
  "fieldGet sch inst index =
     (case map_of (descriptor sch) index of
        None \<Rightarrow> Undefined
      | Some p \<Rightarrow>
          (case virtual p of
             Some v \<Rightarrow> vget v (plainGet sch inst)
           | None \<Rightarrow> plainGet sch inst index))"

text \<open>
  \<^verbatim>\<open>Reflect.get(target, name, receiver)\<close> on an instance: the accessor when the instance
  has one for the name, else the own data property of that name. Other names (methods of
  the class, internals of the emitter) are not field reads and give \<open>Undefined\<close> here.
\<close>

definition reflectGet :: "world \<Rightarrow> document \<Rightarrow> string \<Rightarrow> jsval" where
  "reflectGet w inst name =
     (if name \<in> set (getset inst) then fieldGet (schemas w (schemaRef inst)) inst name
      else getProp (own inst) name)"

text \<open>The \<^verbatim>\<open>get\<close> trap of the proxy (lines 104-113).\<close>

definition proxyGet :: "env \<Rightarrow> world \<Rightarrow> addr \<Rightarrow> document \<Rightarrow> string \<Rightarrow> jsval" where
  "proxyGet env w a inst name =
     (if dotNotation (schemas w (schemaRef inst)) \<and> CHR ''.'' \<in> set name
      then lodashGet env w a name
      else reflectGet w inst name)"

text \<open>
  \<^verbatim>\<open>get(path)\<close> (lines 229-231) returns \<^verbatim>\<open>this[path]\<close>: a read through the proxy.
\<close>

definition get_impl :: "env \<Rightarrow> world \<Rightarrow> addr \<Rightarrow> string \<Rightarrow> jsval" where
  "get_impl env w a path =
     (case heap w a of HModel inst \<Rightarrow> proxyGet env w a inst path | _ \<Rightarrow> Undefined)"

section \<open>Serialization\<close>

type_synonym 'a outcome = "(error + 'a) option"

text \<open>
  A serialization returns a value and the new state, throws, or (a document that contains
  itself) does not return: \<open>None\<close>.
\<close>

definition isDate :: "world \<Rightarrow> jsval \<Rightarrow> bool" where
  "isDate w v = (case v of Ref r \<Rightarrow> (case heap w r of HDate t \<Rightarrow> True | _ \<Rightarrow> False) | _ \<Rightarrow> False)"

text \<open>
  lodash's \<^verbatim>\<open>_.size\<close>: the length of an array, of a string and of an object with a
  valid \<^verbatim>\<open>length\<close>, else the number of own keys.
\<close>

definition sizeOf :: "world \<Rightarrow> jsval \<Rightarrow> error + nat" where
  "sizeOf w v =
     (case v of
        Str s \<Rightarrow> Inr (length s)
      | Ref r \<Rightarrow>
          (case heap w r of
             HArray xs \<Rightarrow> Inr (length xs)
           | HObject kvs \<Rightarrow>
               (case getProp kvs ''length'' of
                  Num n \<Rightarrow> Inr (if 0 \<le> n \<and> n \<le> 9007199254740991 then nat n else length kvs)
                | _ \<Rightarrow> Inr (length kvs))
           | HDate t \<Rightarrow> Inr 0
           | HModel d \<Rightarrow> Inl Unmodelled)
      | _ \<Rightarrow> Inr 0)"

text \<open>
  Lines 336-343: the converted value is dropped when it is no date, \<^verbatim>\<open>minimize\<close> is set
  and it is empty; otherwise it is written to the result.
\<close>

definition writeUnlessEmpty ::
  "options \<Rightarrow> string \<Rightarrow> jsval \<Rightarrow> world \<Rightarrow> (string \<times> jsval) list
     \<Rightarrow> (world \<times> (string \<times> jsval) list) outcome" where
  "writeUnlessEmpty opts index v w ret =
     (if \<not> isDate w v \<and> truthy (minimize opts)
      then (case sizeOf w v of
              Inl e \<Rightarrow> Some (Inl e)
            | Inr n \<Rightarrow> if n = 0 then Some (Inr (w, ret)) else Some (Inr (w, assign index v ret)))
      else Some (Inr (w, assign index v ret)))"

text \<open>
  Lines 311-334, for a value that is an object. \<open>rec\<close> is the serialization of a nested
  document. The typed array class is not in the sources and no value of this model is
  one; a plain object that carries a truthy \<^verbatim>\<open>_isBaseModel\<close> or \<^verbatim>\<open>_isObjectArray\<close>
  property takes the branch and fails at the method call. \<^verbatim>\<open>_.clone\<close> creates the
  properties of the copy in the order in which it enumerates those of the original.
\<close>

definition convertObject ::
  "(world \<Rightarrow> addr \<Rightarrow> options option \<Rightarrow> bool \<Rightarrow> (jsval \<times> world) outcome)
     \<Rightarrow> env \<Rightarrow> options \<Rightarrow> string \<Rightarrow> addr \<Rightarrow> world \<Rightarrow> (string \<times> jsval) list
     \<Rightarrow> (world \<times> (string \<times> jsval) list) outcome" where
  "convertObject rec env opts index r w ret =
     (case heap w r of
        HModel d \<Rightarrow>
          (case rec w r (Some opts) (truthy (json opts)) of
             None \<Rightarrow> None
           | Some (Inl e) \<Rightarrow> Some (Inl e)
           | Some (Inr (v, w')) \<Rightarrow> writeUnlessEmpty opts index v w' ret)
      | HArray xs \<Rightarrow>
          (case alloc (store w r (HArray [])) (HArray xs) of
             (r', w') \<Rightarrow> writeUnlessEmpty opts index (Ref r') w' ret)
      | HDate t \<Rightarrow>
          (case alloc w (HDate t) of
             (d, w1) \<Rightarrow>
               if dateToISO opts = Bool True
               then Some (Inr (w1, assign index (Ref r) (assign index (Str (toISOString env t)) ret)))
               else (case alloc w1 (HDate t) of
                       (d2, w2) \<Rightarrow>
                         Some (Inr (w2, assign index (Ref r) (assign index (Ref d2) ret)))))
      | HObject kvs \<Rightarrow>
          if truthy (getProp kvs ''_isBaseModel'') then Some (Inl TypeError)
          else if truthy (getProp kvs ''_isObjectArray'') then Some (Inl TypeError)
          else (case alloc w (HObject (propertyOrder kvs)) of
                  (r', w') \<Rightarrow> writeUnlessEmpty opts index (Ref r') w' ret))"

text \<open>The body of the \<^verbatim>\<open>_.each\<close> callback (lines 290-344) for one field.\<close>

definition fieldStep ::
  "(world \<Rightarrow> addr \<Rightarrow> options option \<Rightarrow> bool \<Rightarrow> (jsval \<times> world) outcome)
     \<Rightarrow> env \<Rightarrow> addr \<Rightarrow> options \<Rightarrow> string \<Rightarrow> properties \<Rightarrow> world \<Rightarrow> (string \<times> jsval) list
     \<Rightarrow> (world \<times> (string \<times> jsval) list) outcome" where
  "fieldStep rec env a opts index p w ret =
     (if invisible p \<and> virtual p = None then Some (Inr (w, ret))
      else if virtual p \<noteq> None \<and> \<not> truthy (virtuals opts) then Some (Inr (w, ret))
      else if dserializable p = Bool False \<and> serializable opts = Bool False
      then Some (Inr (w, ret))
      else
        (case heap w a of
           HModel inst \<Rightarrow>
             (let v = proxyGet env w a inst index in
              if truthy (minimize opts) \<and> (v = Undefined \<or> v = Null) then Some (Inr (w, ret))
              else (case v of
                      Ref r \<Rightarrow> convertObject rec env opts index r w ret
                    | _ \<Rightarrow> Some (Inr (w, assign index v ret))))
         | _ \<Rightarrow> Some (Inl TypeError)))"

fun eachField ::
  "(world \<Rightarrow> addr \<Rightarrow> options option \<Rightarrow> bool \<Rightarrow> (jsval \<times> world) outcome)
     \<Rightarrow> env \<Rightarrow> addr \<Rightarrow> options \<Rightarrow> (string \<times> properties) list \<Rightarrow> world \<Rightarrow> (string \<times> jsval) list
     \<Rightarrow> (world \<times> (string \<times> jsval) list) outcome" where
  "eachField rec env a opts [] w ret = Some (Inr (w, ret))"
| "eachField rec env a opts ((index, p) # rest) w ret =
     (case fieldStep rec env a opts index p w ret of
        None \<Rightarrow> None
      | Some (Inl e) \<Rightarrow> Some (Inl e)
      | Some (Inr (w', ret')) \<Rightarrow> eachField rec env a opts rest w' ret')"

text \<open>Lines 346-361: which transform runs on the built mapping.\<close>

definition isFunction :: "topt \<Rightarrow> bool" where
  "isFunction t = (case t of TFun f \<Rightarrow> True | TVal v \<Rightarrow> False)"

definition truthyT :: "topt \<Rightarrow> bool" where
  "truthyT t = (case t of TFun f \<Rightarrow> True | TVal v \<Rightarrow> truthy v)"

definition resolveTransform :: "schema \<Rightarrow> options \<Rightarrow> topt" where
  "resolveTransform sch opts =
     (if transform opts = TVal (Bool True) \<or> (toObjectOpt sch \<noteq> None \<and> truthyT (transform opts))
      then (case (if truthy (json opts) then toJSONOpt sch else toObjectOpt sch) of
              Some so \<Rightarrow> if isFunction (transform opts) then transform opts else transform so
            | None \<Rightarrow> transform opts)
      else transform opts)"

text \<open>
  Lines 363-370. The built mapping lives at \<open>r\<close>; a transform that edits or replaces it
  leaves its entries there.
\<close>

definition applyTransform :: "topt \<Rightarrow> addr \<Rightarrow> (string \<times> jsval) list \<Rightarrow> world \<Rightarrow> jsval \<times> world" where
  "applyTransform t r ret w =
     (case t of
        TFun f \<Rightarrow>
          (case f ret of
             XUndefined \<Rightarrow> (Ref r, store w r (HObject ret))
           | XObject kvs \<Rightarrow> (Ref r, store w r (HObject kvs))
           | XValue v \<Rightarrow> (v, store w r (HObject ret)))
      | TVal v \<Rightarrow> (Ref r, store w r (HObject ret)))"

text \<open>
  \<^verbatim>\<open>_toObject(options, json)\<close> on the document at \<open>a\<close> (lines 280-371), with \<open>rec\<close> for
  the nested documents.
\<close>

definition toObjectBody ::
  "(world \<Rightarrow> addr \<Rightarrow> options option \<Rightarrow> bool \<Rightarrow> (jsval \<times> world) outcome)
     \<Rightarrow> env \<Rightarrow> world \<Rightarrow> addr \<Rightarrow> options option \<Rightarrow> bool \<Rightarrow> (jsval \<times> world) outcome" where
  "toObjectBody rec env w a arg js =
     (case heap w a of
        HModel inst \<Rightarrow>
          (let sch = schemas w (schemaRef inst);
               opts = prepareToObjectOptions sch arg js
           in case alloc w (HObject []) of
                (r, w1) \<Rightarrow>
                  (case eachField rec env a opts (propertyOrder (descriptor sch)) w1 [] of
                     None \<Rightarrow> None
                   | Some (Inl e) \<Rightarrow> Some (Inl e)
                   | Some (Inr (w2, ret)) \<Rightarrow>
                       Some (Inr (applyTransform (resolveTransform sch opts) r ret w2))))
      | _ \<Rightarrow> Some (Inl TypeError))"

text \<open>
  The recursion into nested documents is bounded by a fuel: a document nested in itself
  exhausts any fuel, as it exhausts the stack of the runtime.
\<close>

primrec priv_toObject ::
  "nat \<Rightarrow> env \<Rightarrow> world \<Rightarrow> addr \<Rightarrow> options option \<Rightarrow> bool \<Rightarrow> (jsval \<times> world) outcome" where
  "priv_toObject 0 env w a arg js = None"
| "priv_toObject (Suc n) env w a arg js = toObjectBody (priv_toObject n env) env w a arg js"

definition toObject :: "nat \<Rightarrow> env \<Rightarrow> world \<Rightarrow> addr \<Rightarrow> options option \<Rightarrow> (jsval \<times> world) outcome" where
  "toObject n env w a arg = priv_toObject n env w a arg False"

definition toJSON :: "nat \<Rightarrow> env \<Rightarrow> world \<Rightarrow> addr \<Rightarrow> options option \<Rightarrow> (jsval \<times> world) outcome" where
  "toJSON n env w a arg = priv_toObject n env w a arg True"

section \<open>Writing a field\<close>

text \<open>
  Modelled from the spec: the set accessor that \<^verbatim>\<open>defineProperty\<close> of
  \<^verbatim>\<open>lib/basemodel.utils.js\<close> (not in the sources) binds to a field, the pipeline of
  the spec's section 4.2: a \<^verbatim>\<open>readOnly\<close> field is left alone without an error;
  \<^verbatim>\<open>transform\<close> replaces the raw value; a false \<^verbatim>\<open>validate\<close> aborts with an error
  recorded; a failed typecast or constraint aborts with an error recorded and the value
  as it was; \<^verbatim>\<open>'any'\<close> is a passthrough; on success the value is stored under the field
  name. A virtual field has no slot: its \<^verbatim>\<open>set\<close> "decomposes into other fields", and
  without one it is read-only. The order is "uniform across all field types": the
  \<^verbatim>\<open>readOnly\<close> test comes first for a virtual field too. The accessor changes the
  instance only and never throws.
\<close>

definition logError :: "string \<Rightarrow> string \<Rightarrow> jsval \<Rightarrow> document \<Rightarrow> document" where
  "logError msg index v inst =
     inst \<lparr> errors := errors inst @
       [\<lparr> errorMessage = msg, setValue = v, originalValue = getProp (obj inst) index,
          fieldSchema = index \<rparr>] \<rparr>"

definition plainSet :: "schema \<Rightarrow> string \<Rightarrow> jsval \<Rightarrow> document \<Rightarrow> document" where
  "plainSet sch index v inst =
     (case map_of (descriptor sch) index of
        None \<Rightarrow> inst
      | Some p \<Rightarrow>
          if virtual p \<noteq> None then inst
          else if readOnly p then inst
          else
            (let v1 = (case dtransform p of Some f \<Rightarrow> f v | None \<Rightarrow> v) in
             if (case validate p of Some ok \<Rightarrow> \<not> ok v1 | None \<Rightarrow> False)
             then logError ''validation failed'' index v1 inst
             else
               (case (if dtype p = ''any'' then Some v1 else typecast p v1) of
                  None \<Rightarrow> logError ''typecast failed'' index v1 inst
                | Some v2 \<Rightarrow> inst \<lparr> obj := assign index v2 (obj inst) \<rparr>)))"

definition fieldSet :: "schema \<Rightarrow> string \<Rightarrow> jsval \<Rightarrow> document \<Rightarrow> document" where
  "fieldSet sch index v inst =
     (case map_of (descriptor sch) index of
        None \<Rightarrow> inst
      | Some p \<Rightarrow>
          if readOnly p then inst
          else
            (case virtual p of
               Some vt \<Rightarrow>
                 (case vset vt of
                    None \<Rightarrow> inst
                  | Some f \<Rightarrow> foldl (\<lambda>i (k, x). plainSet sch k x i) inst (f v))
             | None \<Rightarrow> plainSet sch index v inst))"

text \<open>
  \<^verbatim>\<open>Reflect.set(target, name, value, receiver)\<close>: the accessor when the instance has
  one. For a name that the schema declares and the instance has no accessor for (it was
  added through another instance), the proxy's \<^verbatim>\<open>getOwnPropertyDescriptor\<close> (lines
  90-101) reports a property that is not writable (it spells the attribute
  \<^verbatim>\<open>writeable\<close>), and the write is refused. For any other name the trap reports no
  property: the write finds the writable member that the instance inherits, if any, and
  defines an own data property of the instance. The inherited \<^verbatim>\<open>__proto__\<close> is an
  accessor: it ignores a primitive value, and it replaces the prototype of the instance
  by an object or null, after which the instance is outside this model.
\<close>

definition reflectSet :: "world \<Rightarrow> addr \<Rightarrow> string \<Rightarrow> jsval \<Rightarrow> (error + bool) \<times> world" where
  "reflectSet w a name v =
     (case heap w a of
        HModel inst \<Rightarrow>
          if name \<in> set (getset inst)
          then (Inr True, store w a (HModel (fieldSet (schemas w (schemaRef inst)) name v inst)))
          else if map_of (descriptor (schemas w (schemaRef inst))) name \<noteq> None
          then (Inr False, w)
          else if name = ''__proto__''
          then (case v of
                  Ref r \<Rightarrow> (Inl Unmodelled, w)
                | Null \<Rightarrow> (Inl Unmodelled, w)
                | _ \<Rightarrow> (Inr True, w))
          else (Inr True, store w a (HModel (inst \<lparr> own := assign name v (own inst) \<rparr>)))
      | _ \<Rightarrow> (Inr False, w))"

text \<open>
  Modelled from the spec: \<^verbatim>\<open>Schema.add\<close> (the schema class is not in the sources):
  "\<^verbatim>\<open>add(name, descriptor)\<close> (must not redefine an existing field)"; the new field is
  the last that was declared.
\<close>

definition schemaAdd :: "string \<Rightarrow> properties \<Rightarrow> schema \<Rightarrow> schema" where
  "schemaAdd index p sch =
     (if map_of (descriptor sch) index = None
      then sch \<lparr> descriptor := descriptor sch @ [(index, p)] \<rparr>
      else sch)"

text \<open>
  \<^verbatim>\<open>_addToSchema(index, properties)\<close> (lines 193-196): the field goes to the shared
  schema, the accessor to this instance.
\<close>

definition addToSchema :: "world \<Rightarrow> addr \<Rightarrow> document \<Rightarrow> string \<Rightarrow> properties \<Rightarrow> world" where
  "addToSchema w a inst index p =
     store
       (w \<lparr> schemas := (schemas w)(schemaRef inst := schemaAdd index p (schemas w (schemaRef inst))) \<rparr>)
       a (HModel (inst \<lparr> getset := List.insert index (getset inst) \<rparr>))"

text \<open>
  The \<^verbatim>\<open>set\<close> trap of the proxy (lines 116-146): the result of the trap (or the error
  of a path write) and the state.
\<close>

definition proxySet :: "env \<Rightarrow> world \<Rightarrow> addr \<Rightarrow> string \<Rightarrow> jsval \<Rightarrow> (error + bool) \<times> world" where
  "proxySet env w a name v =
     (case heap w a of
        HModel inst \<Rightarrow>
          (let sch = schemas w (schemaRef inst) in
           if dotNotation sch \<and> CHR ''.'' \<in> set name
           then (case lodashSet env w a name v of
                   (Some e, w') \<Rightarrow> (Inl e, w')
                 | (None, w') \<Rightarrow> (Inr True, w'))
           else if \<not> inDescriptor sch name
           then
             (if extendEventEmitter inst \<and> name \<in> set (eventEmmiterInternals env)
              then (Inr True, w)
              else if strict sch then (Inr False, w)
              else reflectSet (addToSchema w a inst name anyDescriptor) a name v)
           else reflectSet w a name v)
      | _ \<Rightarrow> (Inl TypeError, w))"

text \<open>
  An assignment \<^verbatim>\<open>proxy[name] = v\<close> in the strict-mode code of the class: a trap that
  returns false makes the assignment throw a \<^verbatim>\<open>TypeError\<close>.
\<close>

definition proxyAssign :: "env \<Rightarrow> world \<Rightarrow> addr \<Rightarrow> string \<Rightarrow> jsval \<Rightarrow> error option \<times> world" where
  "proxyAssign env w a name v =
     (case proxySet env w a name v of
        (Inl e, w') \<Rightarrow> (Some e, w')
      | (Inr ok, w') \<Rightarrow> (if ok then (None, w') else (Some TypeError, w')))"

section \<open>The public \<^verbatim>\<open>set\<close>\<close>

text \<open>Decimal rendering of an array index and of an integer.\<close>

fun showDigits :: "nat \<Rightarrow> nat \<Rightarrow> string" where
  "showDigits 0 n = []"
| "showDigits (Suc fuel) n =
     (if n < 10 then [char_of (48 + n)]
      else showDigits fuel (n div 10) @ [char_of (48 + n mod 10)])"

definition showNat :: "nat \<Rightarrow> string" where
  "showNat n = showDigits (Suc n) n"

definition showInt :: "int \<Rightarrow> string" where
  "showInt i = (if i < 0 then CHR ''-'' # showNat (nat (- i)) else showNat (nat i))"

text \<open>
  The keys that \<^verbatim>\<open>for (const key in value)\<close> visits, with the value read at each. A
  document or a typed array passed as the data is enumerated through accessors that are
  not in the sources: \<open>Unmodelled\<close>.
\<close>

definition enumerate_keys :: "hobj \<Rightarrow> error + (string \<times> jsval) list" where
  "enumerate_keys ob =
     (case ob of
        HObject kvs \<Rightarrow> Inr (propertyOrder kvs)
      | HArray xs \<Rightarrow> Inr (map (\<lambda>(i, x). (showNat i, x)) (List.enumerate 0 xs))
      | HDate t \<Rightarrow> Inr []
      | HModel d \<Rightarrow> Inl Unmodelled)"

text \<open>
  \<^verbatim>\<open>value.hasOwnProperty(key)\<close> (line 211): the method is looked up on the data object
  itself. An own property of that name shadows the inherited method, and no value of
  this model is callable: the call throws. Otherwise every visited key is an own key.
\<close>

definition hasOwnProperty_call :: "hobj \<Rightarrow> string \<Rightarrow> error + bool" where
  "hasOwnProperty_call ob key =
     (case ob of
        HObject kvs \<Rightarrow>
          if map_of kvs ''hasOwnProperty'' \<noteq> None then Inl TypeError else Inr True
      | _ \<Rightarrow> Inr True)"

text \<open>
  \<^verbatim>\<open>try { this[_privateKey]._this[key] = v } catch (err) {}\<close>: an error of the
  assignment is dropped. \<open>Unmodelled\<close> is no error of the program, and stays.
\<close>

definition tryAssign :: "env \<Rightarrow> world \<Rightarrow> addr \<Rightarrow> string \<Rightarrow> jsval \<Rightarrow> error option \<times> world" where
  "tryAssign env w a key v =
     (case proxyAssign env w a key v of
        (Some Unmodelled, w') \<Rightarrow> (Some Unmodelled, w')
      | (_, w') \<Rightarrow> (None, w'))"

fun setEach ::
  "env \<Rightarrow> addr \<Rightarrow> hobj \<Rightarrow> (string \<times> jsval) list \<Rightarrow> world \<Rightarrow> error option \<times> world" where
  "setEach env a ob [] w = (None, w)"
| "setEach env a ob ((key, v) # rest) w =
     (case hasOwnProperty_call ob key of
        Inl e \<Rightarrow> (Some e, w)
      | Inr isOwn \<Rightarrow>
          if isOwn
          then (case tryAssign env w a key v of
                  (Some e, w') \<Rightarrow> (Some e, w')
                | (None, w') \<Rightarrow> setEach env a ob rest w')
          else setEach env a ob rest w)"

text \<open>
  The property key of a path that is no string (line 219). An object converts through
  its \<^verbatim>\<open>toString\<close>: the inherited one gives \<^verbatim>\<open>[object Object]\<close>, an own property of
  that name is not callable. Arrays, dates and documents as paths, and numbers that
  print in exponent form, are \<open>Unmodelled\<close>.
\<close>

definition toPropertyKey :: "world \<Rightarrow> jsval \<Rightarrow> error + string" where
  "toPropertyKey w v =
     (case v of
        Str s \<Rightarrow> Inr s
      | Undefined \<Rightarrow> Inr ''undefined''
      | Null \<Rightarrow> Inr ''null''
      | Bool b \<Rightarrow> Inr (if b then ''true'' else ''false'')
      | Num n \<Rightarrow> if \<bar>n\<bar> < 10 ^ 21 then Inr (showInt n) else Inl Unmodelled
      | Ref r \<Rightarrow>
          (case heap w r of
             HObject kvs \<Rightarrow>
               if map_of kvs ''toString'' \<noteq> None then Inl TypeError
               else Inr ''[object Object]''
           | _ \<Rightarrow> Inl Unmodelled))"

definition isObject :: "jsval \<Rightarrow> bool" where
  "isObject v = (case v of Ref r \<Rightarrow> True | _ \<Rightarrow> False)"

text \<open>
  \<^verbatim>\<open>set(path, value)\<close> (lines 207-222): the error that leaves the method, if any, and
  the state. Only what happens inside a \<^verbatim>\<open>try\<close> block is caught.
\<close>

definition set_impl :: "env \<Rightarrow> world \<Rightarrow> addr \<Rightarrow> jsval \<Rightarrow> jsval \<Rightarrow> error option \<times> world" where
  "set_impl env w a path v =
     (case path of
        Ref r \<Rightarrow>
          if \<not> truthy v
          then (case enumerate_keys (heap w r) of
                  Inl e \<Rightarrow> (Some e, w)
                | Inr kvs \<Rightarrow> setEach env a (heap w r) kvs w)
          else (case toPropertyKey w path of
                  Inl Unmodelled \<Rightarrow> (Some Unmodelled, w)
                | Inl e \<Rightarrow> (None, w)
                | Inr key \<Rightarrow> tryAssign env w a key v)
      | _ \<Rightarrow>
          (case toPropertyKey w path of
             Inl Unmodelled \<Rightarrow> (Some Unmodelled, w)
           | Inl e \<Rightarrow> (None, w)
           | Inr key \<Rightarrow> tryAssign env w a key v))"

text \<open>\<^verbatim>\<open>getErrors()\<close> and \<^verbatim>\<open>hasErrors()\<close> (lines 442-459).\<close>

definition getErrors :: "world \<Rightarrow> addr \<Rightarrow> setterError list" where
  "getErrors w a = (case heap w a of HModel inst \<Rightarrow> errors inst | _ \<Rightarrow> [])"

definition hasErrors :: "world \<Rightarrow> addr \<Rightarrow> bool" where
  "hasErrors w a = (length (getErrors w a) \<noteq> 0)"

section \<open>Construction\<close>

definition setReadOnly :: "string \<Rightarrow> bool \<Rightarrow> schema \<Rightarrow> schema" where
  "setReadOnly index b sch =
     sch \<lparr> descriptor :=
       map (\<lambda>(k, p). if k = index then (k, p \<lparr> readOnly := b \<rparr>) else (k, p)) (descriptor sch) \<rparr>"

definition updSchema :: "world \<Rightarrow> addr \<Rightarrow> (schema \<Rightarrow> schema) \<Rightarrow> world" where
  "updSchema w s f = w \<lparr> schemas := (schemas w)(s := f (schemas w s)) \<rparr>"

text \<open>
  \<^verbatim>\<open>this[index] = v\<close> on the instance itself, not the proxy, for a field of the schema:
  the accessor.
\<close>

definition rawAssign :: "world \<Rightarrow> addr \<Rightarrow> string \<Rightarrow> jsval \<Rightarrow> world" where
  "rawAssign w a index v = snd (reflectSet w a index v)"

text \<open>
  \<^verbatim>\<open>clone(properties.default)\<close> for a literal default: the tree is built in the heap,
  every array, object and date of it a new object.
\<close>

fun instantiate :: "lit \<Rightarrow> world \<Rightarrow> jsval \<times> world"
  and instantiateList :: "lit list \<Rightarrow> world \<Rightarrow> jsval list \<times> world"
  and instantiateProps :: "(string \<times> lit) list \<Rightarrow> world \<Rightarrow> (string \<times> jsval) list \<times> world" where
  "instantiate LNull w = (Null, w)"
| "instantiate (LBool b) w = (Bool b, w)"
| "instantiate (LNum n) w = (Num n, w)"
| "instantiate (LStr s) w = (Str s, w)"
| "instantiate (LDate t) w = (case alloc w (HDate t) of (r, w') \<Rightarrow> (Ref r, w'))"
| "instantiate (LArray ls) w =
     (case instantiateList ls w of
        (vs, w') \<Rightarrow> (case alloc w' (HArray vs) of (r, w'') \<Rightarrow> (Ref r, w'')))"
| "instantiate (LObject ps) w =
     (case instantiateProps ps w of
        (kvs, w') \<Rightarrow> (case alloc w' (HObject kvs) of (r, w'') \<Rightarrow> (Ref r, w'')))"
| "instantiateList [] w = ([], w)"
| "instantiateList (l # ls) w =
     (case instantiate l w of
        (v, w') \<Rightarrow> (case instantiateList ls w' of (vs, w'') \<Rightarrow> (v # vs, w'')))"
| "instantiateProps [] w = ([], w)"
| "instantiateProps ((k, l) # ps) w =
     (case instantiate l w of
        (v, w') \<Rightarrow> (case instantiateProps ps w' of (kvs, w'') \<Rightarrow> ((k, v) # kvs, w'')))"

text \<open>
  One round of the loop that populates the defaults (lines 160-168). The
  \<^verbatim>\<open>readOnly\<close> flag is switched off on the descriptor, which the schema shares, and put
  back after the write. A default that is a function is called on the instance.
\<close>

definition defaultValue :: "dflt \<Rightarrow> addr \<Rightarrow> world \<Rightarrow> jsval \<times> world" where
  "defaultValue d a w =
     (case d of
        Producer f \<Rightarrow>
          (case heap w a of
             HModel inst \<Rightarrow> (f (reflectGet w inst), w)
           | _ \<Rightarrow> (Undefined, w))
      | Literal l \<Rightarrow> instantiate l w)"

definition defaultStep :: "addr \<Rightarrow> addr \<Rightarrow> string \<Rightarrow> world \<Rightarrow> world" where
  "defaultStep a s index w =
     (case map_of (descriptor (schemas w s)) index of
        None \<Rightarrow> w
      | Some p \<Rightarrow>
          (case dflt p of
             None \<Rightarrow> w
           | Some d \<Rightarrow>
               (case defaultValue d a (updSchema w s (setReadOnly index False)) of
                  (v, w2) \<Rightarrow>
                    updSchema (rawAssign w2 a index v) s (setReadOnly index (readOnly p)))))"

definition populateDefaults :: "addr \<Rightarrow> addr \<Rightarrow> world \<Rightarrow> world" where
  "populateDefaults a s w =
     foldl (\<lambda>w' index. defaultStep a s index w') w
       (map fst (propertyOrder (descriptor (schemas w s))))"

text \<open>
  The instance as lines 39-63 set it up: no values, no errors, and an accessor for every
  field of the schema.
\<close>

definition newDocument :: "world \<Rightarrow> bool \<Rightarrow> addr \<Rightarrow> document" where
  "newDocument w emitter s =
     \<lparr> schemaRef = s, obj = [], own = [], errors = [],
       getset = map fst (propertyOrder (descriptor (schemas w s))),
       extendEventEmitter = emitter \<rparr>"

text \<open>
  The creation options and the constructor (lines 38-181): the new instance, then the
  defaults, then the values through \<^verbatim>\<open>set\<close>. The result is the address of the
  instance, the error that leaves the constructor, if any, and the state.
\<close>

record creation =
  cloneValues :: bool

definition construct ::
  "env \<Rightarrow> world \<Rightarrow> bool \<Rightarrow> jsval \<Rightarrow> creation \<Rightarrow> addr \<Rightarrow> addr \<times> error option \<times> world" where
  "construct env w emitter vals copts s =
     (case alloc w (HModel (newDocument w emitter s)) of
        (a, w0) \<Rightarrow>
          (let w1 = populateDefaults a s w0
           in if isObject vals
              then (case (if cloneValues copts
                          then (case clone env w1 vals of (data, obs) \<Rightarrow> (data, allocAll w1 obs))
                          else (vals, w1)) of
                      (data, w2) \<Rightarrow>
                        (case set_impl env w2 a data Undefined of (e, w3) \<Rightarrow> (a, e, w3)))
              else (a, None, w1)))"

section \<open>Notions for the statements\<close>

text \<open>
  What a call returned, and an object of the heap after it (\<open>None\<close> when the call threw
  or did not return).
\<close>

definition valueOf :: "(jsval \<times> world) outcome \<Rightarrow> jsval option" where
  "valueOf r = (case r of Some (Inr (v, w')) \<Rightarrow> Some v | _ \<Rightarrow> None)"

definition heapAfter :: "(jsval \<times> world) outcome \<Rightarrow> addr \<Rightarrow> hobj option" where
  "heapAfter r a = (case r of Some (Inr (v, w')) \<Rightarrow> Some (heap w' a) | _ \<Rightarrow> None)"

text \<open>
  What a serialization leaves of a state: the schemas; every object allocated before it,
  but that an array may have lost its elements; the allocation only grows.
\<close>

definition frame :: "world \<Rightarrow> world \<Rightarrow> bool" where
  "frame w w' =
     (schemas w' = schemas w \<and> nextAddr w \<le> nextAddr w' \<and>
      (\<forall>x<nextAddr w.
         heap w' x = heap w x \<or> ((\<exists>xs. heap w x = HArray xs) \<and> heap w' x = HArray [])))"




text \<open>
  The document at \<open>b\<close>, of the schema at \<open>s\<close> without dot notation, has an accessor for
  every name of \<open>K\<close>.
\<close>

definition slot :: "string set \<Rightarrow> addr \<Rightarrow> addr \<Rightarrow> world \<Rightarrow> bool" where
  "slot K b s w =
     (b < nextAddr w \<and> \<not> dotNotation (schemas w s)
      \<and> (\<exists>i. heap w b = HModel i \<and> schemaRef i = s \<and> K \<subseteq> set (getset i)))"

text \<open>
  The document at \<open>b\<close>, of the schema at \<open>s\<close> without dot notation and without virtual
  fields, has the accessor of the field \<open>index\<close>, whose descriptor is \<open>p\<close>, and stores
  \<open>x\<close> for it.
\<close>

definition holds :: "string \<Rightarrow> properties \<Rightarrow> jsval \<Rightarrow> addr \<Rightarrow> addr \<Rightarrow> world \<Rightarrow> bool" where
  "holds index p x b s w =
     (b < nextAddr w \<and> \<not> dotNotation (schemas w s)
      \<and> (\<forall>q \<in> snd ` set (descriptor (schemas w s)). virtual q = None)
      \<and> map_of (descriptor (schemas w s)) index = Some p
      \<and> (\<exists>i. heap w b = HModel i \<and> schemaRef i = s \<and> index \<in> set (getset i)
            \<and> getProp (obj i) index = x))"

text \<open>
  The round trip: the document at \<open>a\<close> is serialized with \<^verbatim>\<open>toObject()\<close>, a document
  of the same schema is constructed without values, and \<^verbatim>\<open>set\<close> is called on it with
  the serialization. The result is the address of the new document and the state; a
  field of the new document is then read with \<^verbatim>\<open>get\<close>.
\<close>

definition roundTrip :: "nat \<Rightarrow> env \<Rightarrow> world \<Rightarrow> addr \<Rightarrow> (addr \<times> world) outcome" where
  "roundTrip n env w a =
     (case heap w a of
        HModel x \<Rightarrow>
          (case toObject n env w a None of
             None \<Rightarrow> None
           | Some (Inl e) \<Rightarrow> Some (Inl e)
           | Some (Inr (data, w1)) \<Rightarrow>
               (case construct env w1 (extendEventEmitter x) Undefined
                       \<lparr> cloneValues = False \<rparr> (schemaRef x) of
                  (b, Some e, w2) \<Rightarrow> Some (Inl e)
                | (b, None, w2) \<Rightarrow>
                    (case set_impl env w2 b data Undefined of
                       (Some e, w3) \<Rightarrow> Some (Inl e)
                     | (None, w3) \<Rightarrow> Some (Inr (b, w3)))))
      | _ \<Rightarrow> Some (Inl TypeError))"

definition fieldAfter :: "env \<Rightarrow> (addr \<times> world) outcome \<Rightarrow> string \<Rightarrow> jsval option" where
  "fieldAfter env r path =
     (case r of Some (Inr (b, w')) \<Rightarrow> Some (get_impl env w' b path) | _ \<Rightarrow> None)"

text \<open>
  A field that is stored and read as it is: not virtual, invisible or read-only, with no
  default and no \<^verbatim>\<open>transform\<close>, \<^verbatim>\<open>validate\<close> or \<^verbatim>\<open>get\<close> function.
\<close>

definition plainField :: "properties \<Rightarrow> bool" where
  "plainField q =
     (virtual q = None \<and> \<not> invisible q \<and> \<not> readOnly q \<and> dflt q = None
      \<and> dtransform q = None \<and> validate q = None \<and> getter q = None)"

text \<open>
  A field value that a minimizing serialization writes and a write stores again: it is
  absent; or a boolean, number or string, or a date, in a field of type \<^verbatim>\<open>any\<close> or one
  whose typecast leaves the value as it is; or a plain object that is not empty, in a
  field of type \<^verbatim>\<open>any\<close>. Null, arrays, empty objects and nested documents are not.
\<close>

definition survives :: "world \<Rightarrow> properties \<Rightarrow> jsval \<Rightarrow> bool" where
  "survives w q v =
     (case v of
        Undefined \<Rightarrow> True
      | Null \<Rightarrow> False
      | Ref r \<Rightarrow>
          r < nextAddr w \<and>
          (case heap w r of
             HDate t \<Rightarrow> dtype q = ''any'' \<or> typecast q v = Some v
           | HObject kvs \<Rightarrow>
               dtype q = ''any'' \<and> \<not> truthy (getProp kvs ''_isBaseModel'')
               \<and> \<not> truthy (getProp kvs ''_isObjectArray'') \<and> sizeOf w v \<noteq> Inr 0
           | _ \<Rightarrow> False)
      | _ \<Rightarrow> dtype q = ''any'' \<or> typecast q v = Some v)"

text \<open>
  Two values are the same when they are equal, or are references to objects with equal
  contents (a serialization copies a plain object).
\<close>

definition sameValue :: "world \<Rightarrow> jsval \<Rightarrow> jsval \<Rightarrow> bool" where
  "sameValue w u v =
     (u = v \<or> (case (u, v) of (Ref r, Ref r') \<Rightarrow> heap w r = heap w r' | _ \<Rightarrow> False))"

text \<open>
  What the serialization of \<open>w\<close>, which ends in \<open>w2\<close>, has for a field that holds \<open>v\<close>:
  no entry when the field is absent; else the value, or a copy of the plain object that
  the value refers to, allocated during the serialization.
\<close>

definition carried :: "world \<Rightarrow> world \<Rightarrow> jsval \<Rightarrow> jsval option \<Rightarrow> bool" where
  "carried w w2 v m =
     (if v = Undefined then m = None
      else (\<exists>v'. m = Some v' \<and>
             (v' = v \<or> (\<exists>r r' kvs. v = Ref r \<and> heap w r = HObject kvs \<and> v' = Ref r'
                            \<and> nextAddr w \<le> r' \<and> r' < nextAddr w2 \<and> heap w2 r' = HObject kvs))))"

section \<open>The option resolution as the specification words it\<close>

text \<open>
  "Explicit call-time options > schema-level \<^verbatim>\<open>toObject\<close>/\<^verbatim>\<open>toJSON\<close> options > engine
  defaults (\<^verbatim>\<open>transform: true, minimize: true, virtuals: false, serializable: true,
  dateToISO: false\<close>)": per option, the first of the three that sets it.
\<close>

definition pick :: "jsval \<Rightarrow> jsval \<Rightarrow> jsval \<Rightarrow> jsval" where
  "pick c s d = (if c \<noteq> Undefined then c else if s \<noteq> Undefined then s else d)"

definition pickT :: "topt \<Rightarrow> topt \<Rightarrow> topt \<Rightarrow> topt" where
  "pickT c s d = (if c \<noteq> TVal Undefined then c else if s \<noteq> TVal Undefined then s else d)"

definition specOptions :: "schema \<Rightarrow> options option \<Rightarrow> bool \<Rightarrow> options" where
  "specOptions sch arg js =
     (let c = (case arg of Some opts \<Rightarrow> opts | None \<Rightarrow> emptyOptions);
          sl = (case (if js then toJSONOpt sch else toObjectOpt sch) of
                  Some so \<Rightarrow> so | None \<Rightarrow> emptyOptions)
      in \<lparr> transform = pickT (transform c) (transform sl) (TVal (Bool True)),
           json = (if js then Bool True else json c),
           minimize = pick (minimize c) (minimize sl) (Bool True),
           virtuals = pick (virtuals c) (virtuals sl) (Bool False),
           serializable = pick (serializable c) (serializable sl) (Bool True),
           dateToISO = pick (dateToISO c) (dateToISO sl) (Bool False),
           useSchemaOptions = useSchemaOptions c \<rparr>)"

section \<open>Example states\<close>

text \<open>
  The examples run without dot notation and without cloning the constructor's values,
  and no ISO string of theirs is looked at: their environment fixes the property names of
  an emitter and leaves the library functions unspecified.
\<close>

definition nodeEnv :: env where
  "nodeEnv = \<lparr> toISOString = undefined, lodashGet = undefined, lodashSet = undefined,
     clone = undefined,
     eventEmmiterInternals = [''_events'', ''_eventsCount'', ''_maxListeners''] \<rparr>"

definition plainSchema :: "(string \<times> properties) list \<Rightarrow> schema" where
  "plainSchema fs = \<lparr> descriptor = fs, strict = False, dotNotation = False,
     toObjectOpt = None, toJSONOpt = None \<rparr>"

definition emptyHeap :: "addr \<Rightarrow> hobj" where
  "emptyHeap = (\<lambda>a. HObject [])"

text \<open>
  A schema whose \<^verbatim>\<open>toObject\<close> options ask for virtuals.
\<close>

definition virtualsSchema :: schema where
  "virtualsSchema = (plainSchema []) \<lparr> toObjectOpt := Some (emptyOptions \<lparr> virtuals := Bool True \<rparr>) \<rparr>"

text \<open>
  A document of the model \<^verbatim>\<open>{tags: 'any'}\<close> at address 1, whose field holds the plain
  array \<^verbatim>\<open>[1, 2]\<close> at address 2.
\<close>

definition arrayWorld :: world where
  "arrayWorld =
     \<lparr> heap = emptyHeap
         (1 := HModel \<lparr> schemaRef = 0, obj = [(''tags'', Ref 2)], own = [], errors = [],
                        getset = [''tags''], extendEventEmitter = True \<rparr>,
          2 := HArray [Num 1, Num 2]),
       schemas = (\<lambda>s. plainSchema [(''tags'', anyDescriptor)]),
       nextAddr = 3 \<rparr>"

text \<open>
  A document of the model \<^verbatim>\<open>{when: 'any'}\<close> at address 1, whose field holds the date
  of time 0 at address 2.
\<close>

definition dateWorld :: world where
  "dateWorld =
     \<lparr> heap = emptyHeap
         (1 := HModel \<lparr> schemaRef = 0, obj = [(''when'', Ref 2)], own = [], errors = [],
                        getset = [''when''], extendEventEmitter = True \<rparr>,
          2 := HDate 0),
       schemas = (\<lambda>s. plainSchema [(''when'', anyDescriptor)]),
       nextAddr = 3 \<rparr>"

text \<open>
  An empty document of the model \<^verbatim>\<open>{name: 'any'}\<close> at address 1 and, at address 2, the
  data \<^verbatim>\<open>{hasOwnProperty: 1}\<close>.
\<close>

definition dataDoc :: document where
  "dataDoc = \<lparr> schemaRef = 0, obj = [], own = [], errors = [], getset = [''name''],
     extendEventEmitter = True \<rparr>"

definition dataWorld :: world where
  "dataWorld =
     \<lparr> heap = emptyHeap (1 := HModel dataDoc, 2 := HObject [(''hasOwnProperty'', Num 1)]),
       schemas = (\<lambda>s. plainSchema [(''name'', anyDescriptor)]),
       nextAddr = 3 \<rparr>"






text \<open>
  The model \<^verbatim>\<open>{country: {type: 'any', default: 'USA', readOnly: true}, name: {type:
  'any', default: 'anon'}}\<close> and, at address 1, the values
  \<^verbatim>\<open>{country: 'FR', name: 'Bob'}\<close> for a new document.
\<close>

definition countryField :: properties where
  "countryField = anyDescriptor \<lparr> dflt := Some (Literal (LStr ''USA'')), readOnly := True \<rparr>"

definition nameField :: properties where
  "nameField = anyDescriptor \<lparr> dflt := Some (Literal (LStr ''anon'')) \<rparr>"

definition customerWorld :: world where
  "customerWorld =
     \<lparr> heap = emptyHeap (1 := HObject [(''country'', Str ''FR''), (''name'', Str ''Bob'')]),
       schemas = (\<lambda>s. plainSchema [(''country'', countryField), (''name'', nameField)]),
       nextAddr = 2 \<rparr>"



text \<open>
  A document at address 1 of the model \<^verbatim>\<open>{name: 'any', when: 'any', meta: 'any', note:
  'any'}\<close>: \<^verbatim>\<open>name\<close> holds a string, \<^verbatim>\<open>when\<close> the date of time 0 at address 2,
  \<^verbatim>\<open>meta\<close> the plain object \<^verbatim>\<open>{a: 1}\<close> at address 3, and \<^verbatim>\<open>note\<close> is absent.
\<close>

definition orderDoc :: document where
  "orderDoc = \<lparr> schemaRef = 0,
     obj = [(''name'', Str ''Ann''), (''when'', Ref 2), (''meta'', Ref 3)], own = [], errors = [],
     getset = [''name'', ''when'', ''meta'', ''note''], extendEventEmitter = True \<rparr>"

definition orderWorld :: world where
  "orderWorld =
     \<lparr> heap = emptyHeap (1 := HModel orderDoc, 2 := HDate 0, 3 := HObject [(''a'', Num 1)]),
       schemas = (\<lambda>s. plainSchema [(''name'', anyDescriptor), (''when'', anyDescriptor),
                     (''meta'', anyDescriptor), (''note'', anyDescriptor)]),
       nextAddr = 4 \<rparr>"





section \<open>Properties\<close>

named_theorems model_defs

lemmas [model_defs] =
  emptyOptions_def anyDescriptor_def isBoolean_def defaultMinimizeOption_def fillDefaults_def
  schemaLevelOptions_def prepareToObjectOptions_def alloc_def allocAll_def store_def getProp_def
  plainGet_def fieldGet_def reflectGet_def proxyGet_def isDate_def sizeOf_def
  writeUnlessEmpty_def convertObject_def fieldStep_def isFunction_def truthyT_def
  resolveTransform_def applyTransform_def toObjectBody_def toObject_def toJSON_def
  logError_def plainSet_def fieldSet_def reflectSet_def schemaAdd_def addToSchema_def
  proxySet_def proxyAssign_def enumerate_keys_def hasOwnProperty_call_def tryAssign_def
  toPropertyKey_def isObject_def set_impl_def getErrors_def hasErrors_def setReadOnly_def
  updSchema_def rawAssign_def defaultValue_def defaultStep_def populateDefaults_def
  construct_def nodeEnv_def plainSchema_def emptyHeap_def Let_def
  digitValue_def arrayIndex_def isIndexEntry_def indexOfEntry_def propertyOrder_def
  objectPrototypeMembers_def inDescriptor_def newDocument_def

subsection \<open>The order of enumeration\<close>

lemma propertyOrder_Nil [simp]: "propertyOrder [] = []"
  by (simp add: propertyOrder_def)

lemma set_propertyOrder [simp]: "set (propertyOrder kvs) = set kvs"
  by (auto simp: propertyOrder_def)

lemma length_propertyOrder [simp]: "length (propertyOrder kvs) = length kvs"
  by (simp add: propertyOrder_def sum_length_filter_compl)

lemma lookup_filter_key:
  "map_of kvs k = (case filter (\<lambda>kv. fst kv = k) kvs of [] \<Rightarrow> None | kv # rest \<Rightarrow> Some (snd kv))"
  by (induction kvs) auto

lemma filter_filter_key:
  "(\<And>kv. kv \<in> set kvs \<Longrightarrow> fst kv = k \<Longrightarrow> Q kv) \<Longrightarrow>
     filter (\<lambda>kv. fst kv = k) (filter Q kvs) = filter (\<lambda>kv. fst kv = k) kvs"
  by (induction kvs) auto

lemma distinct_filter_split:
  "distinct (filter P xs) \<Longrightarrow> distinct (filter (\<lambda>x. \<not> P x) xs) \<Longrightarrow> distinct xs"
  by (induction xs) (auto split: if_splits)

lemma filter_key_propertyOrder:
  "filter (\<lambda>kv. fst kv = k) (propertyOrder kvs) = filter (\<lambda>kv. fst kv = k) kvs"
proof (cases "arrayIndex k")
  case None
  have a: "filter (\<lambda>kv. fst kv = k) (sort_key indexOfEntry (filter isIndexEntry kvs)) = []"
    using None by (auto simp: filter_empty_conv isIndexEntry_def)
  have b: "filter (\<lambda>kv. fst kv = k) (filter (\<lambda>kv. \<not> isIndexEntry kv) kvs)
      = filter (\<lambda>kv. fst kv = k) kvs"
    using None by (intro filter_filter_key) (simp add: isIndexEntry_def)
  show ?thesis by (simp only: propertyOrder_def filter_append a b) simp
next
  case (Some n)
  let ?ys = "filter isIndexEntry kvs"
  have b: "filter (\<lambda>kv. fst kv = k) (filter (\<lambda>kv. \<not> isIndexEntry kv) kvs) = []"
    using Some by (auto simp: filter_empty_conv isIndexEntry_def)
  have c: "filter (\<lambda>kv. fst kv = k) zs
      = filter (\<lambda>kv. fst kv = k) (filter (\<lambda>kv. indexOfEntry kv = n) zs)" for zs :: "(string \<times> 'a) list"
    using Some by (intro filter_filter_key [symmetric]) (simp add: indexOfEntry_def)
  have "filter (\<lambda>kv. fst kv = k) (sort_key indexOfEntry ?ys)
      = filter (\<lambda>kv. fst kv = k) (filter (\<lambda>kv. indexOfEntry kv = n) (sort_key indexOfEntry ?ys))"
    by (rule c)
  also have "\<dots> = filter (\<lambda>kv. fst kv = k) (filter (\<lambda>kv. indexOfEntry kv = n) ?ys)"
    by (simp only: sort_key_stable)
  also have "\<dots> = filter (\<lambda>kv. fst kv = k) ?ys" by (rule c [symmetric])
  also have "\<dots> = filter (\<lambda>kv. fst kv = k) kvs"
    using Some by (intro filter_filter_key) (simp add: isIndexEntry_def)
  finally show ?thesis by (simp only: propertyOrder_def filter_append b) simp
qed

lemma map_of_propertyOrder [simp]: "map_of (propertyOrder kvs) = map_of kvs"
  by (rule ext) (simp add: lookup_filter_key [of "propertyOrder kvs"] filter_key_propertyOrder
      lookup_filter_key [symmetric])

lemma getProp_propertyOrder [simp]: "getProp (propertyOrder kvs) k = getProp kvs k"
  by (simp add: getProp_def)

lemma distinct_keys_propertyOrder [simp]:
  "distinct (map fst (propertyOrder kvs)) = distinct (map fst kvs)"
proof -
  have "distinct (propertyOrder kvs) = distinct kvs"
    by (auto simp: propertyOrder_def intro: distinct_filter_split [of isIndexEntry])
  then show ?thesis by (simp add: distinct_map)
qed

lemma keys_propertyOrder [simp]: "fst ` set (propertyOrder kvs) = fst ` set kvs"
  by simp


lemma propertyOrder_idem [simp]: "propertyOrder (propertyOrder kvs) = propertyOrder kvs"
proof -
  let ?s = "sort_key indexOfEntry (filter isIndexEntry kvs)"
  have a: "filter isIndexEntry (propertyOrder kvs) = ?s"
    by (simp add: propertyOrder_def filter_sort [symmetric] filter_empty_conv [THEN iffD2])
  have b: "filter (\<lambda>kv. \<not> isIndexEntry kv) (propertyOrder kvs)
      = filter (\<lambda>kv. \<not> isIndexEntry kv) kvs"
    by (simp add: propertyOrder_def filter_empty_conv [THEN iffD2])
  have "sort_key indexOfEntry ?s = ?s" by (rule sort_key_id_if_sorted) simp
  then show ?thesis
    unfolding propertyOrder_def [of "propertyOrder kvs"] a b by (simp add: propertyOrder_def)
qed

subsection \<open>Resolution of the options\<close>

lemma caller_options:
  "\<not> truthy (useSchemaOptions opts) \<Longrightarrow>
     prepareToObjectOptions sch (Some opts) js = fillDefaults sch js opts"
  by (simp add: prepareToObjectOptions_def)

lemma schema_options:
  "arg = None \<or> (\<exists>opts. arg = Some opts \<and> truthy (useSchemaOptions opts)) \<Longrightarrow>
     prepareToObjectOptions sch arg js = fillDefaults sch js (schemaLevelOptions sch js)"
  by (auto simp: prepareToObjectOptions_def)

lemma defaultMinimize_absent:
  "minimize so = Undefined \<Longrightarrow>
   (if js then toJSONOpt sch else toObjectOpt sch) = Some so \<Longrightarrow> defaultMinimizeOption sch js = Bool True"
  by (simp add: defaultMinimizeOption_def isBoolean_def)

lemma defaultMinimize_none:
  "(if js then toJSONOpt sch else toObjectOpt sch) = None \<Longrightarrow> defaultMinimizeOption sch js = Bool True"
  by (simp add: defaultMinimizeOption_def)

text \<open>
  C3, counterexample. The schema sets \<^verbatim>\<open>virtuals: true\<close> in its \<^verbatim>\<open>toObject\<close> options
  and the caller passes the empty options object: the specification's merge keeps the
  schema-level \<^verbatim>\<open>virtuals\<close>, the code resolves it to absent, which the serializer reads
  as false.
\<close>

theorem schema_level_virtuals_counterexample:
  "virtuals (prepareToObjectOptions virtualsSchema (Some emptyOptions) False) = Undefined
   \<and> virtuals (specOptions virtualsSchema (Some emptyOptions) False) = Bool True"
  by (simp add: model_defs virtualsSchema_def specOptions_def pick_def)

text \<open>
  C3, amended. When the caller passes a plain options object that does not set
  \<^verbatim>\<open>_useSchemaOptions\<close>, the effective options are the caller's, with \<^verbatim>\<open>transform\<close>
  defaulting to true and \<^verbatim>\<open>minimize\<close> to the schema-level \<^verbatim>\<open>minimize\<close> if that is a
  boolean and else to true; no other schema-level option applies. In every other case
  the effective options are the schema-level ones over the defaults \<^verbatim>\<open>transform: true\<close>,
  \<^verbatim>\<open>minimize: true\<close>, with \<^verbatim>\<open>json\<close> and \<^verbatim>\<open>_useSchemaOptions\<close> forced. The options
  \<^verbatim>\<open>virtuals\<close>, \<^verbatim>\<open>serializable\<close> and \<^verbatim>\<open>dateToISO\<close> get no default entry.
\<close>

theorem prepareToObjectOptions_resolution:
  "(\<forall>opts. arg = Some opts \<and> \<not> truthy (useSchemaOptions opts) \<longrightarrow>
      transform (prepareToObjectOptions sch arg js)
        = pickT (transform opts) (TVal Undefined) (TVal (Bool True))
      \<and> minimize (prepareToObjectOptions sch arg js)
        = pick (minimize opts) Undefined (defaultMinimizeOption sch js)
      \<and> virtuals (prepareToObjectOptions sch arg js) = virtuals opts
      \<and> serializable (prepareToObjectOptions sch arg js) = serializable opts
      \<and> dateToISO (prepareToObjectOptions sch arg js) = dateToISO opts)
   \<and> ((arg = None \<or> (\<exists>opts. arg = Some opts \<and> truthy (useSchemaOptions opts))) \<longrightarrow>
      (let sl = (case (if js then toJSONOpt sch else toObjectOpt sch) of
                   Some so \<Rightarrow> so | None \<Rightarrow> emptyOptions)
       in transform (prepareToObjectOptions sch arg js)
            = pickT (TVal Undefined) (transform sl) (TVal (Bool True))
          \<and> minimize (prepareToObjectOptions sch arg js)
            = pick Undefined (minimize sl) (Bool True)
          \<and> virtuals (prepareToObjectOptions sch arg js) = virtuals sl
          \<and> serializable (prepareToObjectOptions sch arg js) = serializable sl
          \<and> dateToISO (prepareToObjectOptions sch arg js) = dateToISO sl
          \<and> json (prepareToObjectOptions sch arg js) = Bool js
          \<and> useSchemaOptions (prepareToObjectOptions sch arg js) = Bool True))"
proof (intro conjI allI impI)
  fix opts assume a: "arg = Some opts \<and> \<not> truthy (useSchemaOptions opts)"
  then have e: "prepareToObjectOptions sch arg js = fillDefaults sch js opts"
    by (simp add: caller_options)
  show "transform (prepareToObjectOptions sch arg js)
        = pickT (transform opts) (TVal Undefined) (TVal (Bool True))"
    by (simp add: e fillDefaults_def pickT_def)
  show "minimize (prepareToObjectOptions sch arg js)
        = pick (minimize opts) Undefined (defaultMinimizeOption sch js)"
    by (simp add: e fillDefaults_def pick_def)
  show "virtuals (prepareToObjectOptions sch arg js) = virtuals opts"
    by (simp add: e fillDefaults_def)
  show "serializable (prepareToObjectOptions sch arg js) = serializable opts"
    by (simp add: e fillDefaults_def)
  show "dateToISO (prepareToObjectOptions sch arg js) = dateToISO opts"
    by (simp add: e fillDefaults_def)
next
  assume a: "arg = None \<or> (\<exists>opts. arg = Some opts \<and> truthy (useSchemaOptions opts))"
  have e: "prepareToObjectOptions sch arg js = fillDefaults sch js (schemaLevelOptions sch js)"
    using a by (rule schema_options)
  show "let sl = (case (if js then toJSONOpt sch else toObjectOpt sch) of
                   Some so \<Rightarrow> so | None \<Rightarrow> emptyOptions)
       in transform (prepareToObjectOptions sch arg js)
            = pickT (TVal Undefined) (transform sl) (TVal (Bool True))
          \<and> minimize (prepareToObjectOptions sch arg js)
            = pick Undefined (minimize sl) (Bool True)
          \<and> virtuals (prepareToObjectOptions sch arg js) = virtuals sl
          \<and> serializable (prepareToObjectOptions sch arg js) = serializable sl
          \<and> dateToISO (prepareToObjectOptions sch arg js) = dateToISO sl
          \<and> json (prepareToObjectOptions sch arg js) = Bool js
          \<and> useSchemaOptions (prepareToObjectOptions sch arg js) = Bool True"
  proof (cases "if js then toJSONOpt sch else toObjectOpt sch")
    case None
    then show ?thesis
      using e defaultMinimize_none [of js sch]
      by (cases js)
        (simp_all add: fillDefaults_def schemaLevelOptions_def emptyOptions_def pick_def
          pickT_def)
  next
    case (Some so)
    then show ?thesis
      using e defaultMinimize_absent [of so js sch]
      by (cases js)
        (simp_all add: fillDefaults_def schemaLevelOptions_def pick_def pickT_def)
  qed
qed

theorem prepareToObjectOptions_resolution_witness:
  "minimize (prepareToObjectOptions
      ((plainSchema []) \<lparr> toObjectOpt := Some (emptyOptions \<lparr> minimize := Bool False \<rparr>) \<rparr>)
      (Some (emptyOptions \<lparr> virtuals := Bool True \<rparr>)) False) = Bool False
   \<and> virtuals (prepareToObjectOptions virtualsSchema None False) = Bool True"
  using prepareToObjectOptions_resolution
    [of "Some (emptyOptions \<lparr> virtuals := Bool True \<rparr>)"
        "(plainSchema []) \<lparr> toObjectOpt := Some (emptyOptions \<lparr> minimize := Bool False \<rparr>) \<rparr>" False]
    prepareToObjectOptions_resolution [of None virtualsSchema False]
  by (simp add: model_defs virtualsSchema_def pick_def)

subsection \<open>What a serialization changes\<close>




lemma frame_store_fresh: "nextAddr w \<le> r \<Longrightarrow> frame w (store w r ob)"
  by (auto simp: store_def frame_def)









subsection \<open>The mapping that the loop builds\<close>

lemma map_of_assign: "map_of (assign k v kvs) = (map_of kvs)(k \<mapsto> v)"
  by (induction kvs) (auto simp: fun_eq_iff)











lemma fieldStep_invisible:
  "invisible p \<and> virtual p = None \<Longrightarrow> fieldStep rec env a opts index p w ret = Some (Inr (w, ret))"
  by (simp add: fieldStep_def)

lemma fieldStep_virtual:
  "virtual p \<noteq> None \<and> \<not> truthy (virtuals opts) \<Longrightarrow>
     fieldStep rec env a opts index p w ret = Some (Inr (w, ret))"
  by (simp add: fieldStep_def)





lemma frame_date:
  "frame w w' \<Longrightarrow> a < nextAddr w \<Longrightarrow> heap w a = HDate t \<Longrightarrow> heap w' a = HDate t"
  by (auto simp: frame_def)

lemma frame_empty:
  "frame w w' \<Longrightarrow> a < nextAddr w \<Longrightarrow> heap w a = HArray [] \<or> heap w a = HObject [] \<Longrightarrow>
     heap w' a = HArray [] \<or> heap w' a = HObject []"
  by (auto simp: frame_def)


subsection \<open>Serializing arrays and dates\<close>

text \<open>
  C1, at the failing input. The field \<^verbatim>\<open>tags\<close> of the document holds the plain array
  \<^verbatim>\<open>[1, 2]\<close> at address 2. \<^verbatim>\<open>toObject()\<close> returns \<^verbatim>\<open>{tags: [1, 2]}\<close> with a new
  array, and \<^verbatim>\<open>value.splice(0)\<close> (line 322) has removed every element from the stored
  one.
\<close>

theorem toObject_empties_stored_array:
  "heap arrayWorld 2 = HArray [Num 1, Num 2]
   \<and> valueOf (toObject 1 nodeEnv arrayWorld 1 None) = Some (Ref 3)
   \<and> heapAfter (toObject 1 nodeEnv arrayWorld 1 None) 3 = Some (HObject [(''tags'', Ref 4)])
   \<and> heapAfter (toObject 1 nodeEnv arrayWorld 1 None) 4 = Some (HArray [Num 1, Num 2])
   \<and> heapAfter (toObject 1 nodeEnv arrayWorld 1 None) 2 = Some (HArray [])"
  by (simp add: model_defs arrayWorld_def valueOf_def heapAfter_def)

text \<open>
  C4, at the failing input. The field \<^verbatim>\<open>when\<close> holds a date, the object at address 2.
  With \<^verbatim>\<open>dateToISO: true\<close> and without, the result holds that very object: line 343
  overwrites the ISO string or the copy that lines 328 and 330 wrote.
\<close>

theorem toObject_date_is_stored_date:
  "heapAfter (toObject 1 nodeEnv dateWorld 1 (Some (emptyOptions \<lparr> dateToISO := Bool True \<rparr>))) 3
     = Some (HObject [(''when'', Ref 2)])
   \<and> heapAfter (toObject 1 nodeEnv dateWorld 1 None) 3 = Some (HObject [(''when'', Ref 2)])
   \<and> valueOf (toObject 1 nodeEnv dateWorld 1 (Some (emptyOptions \<lparr> dateToISO := Bool True \<rparr>)))
     = Some (Ref 3)
   \<and> valueOf (toObject 1 nodeEnv dateWorld 1 None) = Some (Ref 3)"
  by (simp add: model_defs dateWorld_def valueOf_def heapAfter_def)

subsection \<open>Which fields are serialized\<close>









subsection \<open>Minimizing\<close>









subsection \<open>The accessors and the set trap\<close>




lemma getProp_assign: "getProp (assign k v kvs) k' = (if k' = k then v else getProp kvs k')"
  by (simp add: getProp_def map_of_assign)

lemma plainSet_other:
  "k \<noteq> index \<Longrightarrow> getProp (obj (plainSet sch k x i)) index = getProp (obj i) index"
  by (auto simp: plainSet_def logError_def Let_def getProp_assign split: option.splits)


lemma fieldSet_readOnly:
  "map_of (descriptor sch) k = Some q \<Longrightarrow> readOnly q \<Longrightarrow> fieldSet sch k x i = i"
  by (simp add: fieldSet_def)

lemma plainSet_readOnly:
  "map_of (descriptor sch) k = Some q \<Longrightarrow> readOnly q \<Longrightarrow> plainSet sch k x i = i"
  by (simp add: plainSet_def)


lemma map_of_snoc_fresh: "map_of kvs k = None \<Longrightarrow> map_of (kvs @ [(k, v)]) k = Some v"
  by (simp add: map_add_Some_iff)


lemma schemaAdd_other:
  "index \<noteq> k \<Longrightarrow> map_of (descriptor (schemaAdd k d sch)) index = map_of (descriptor sch) index"
  by (auto simp: schemaAdd_def map_add_def split: option.splits)





lemma reflectSet_nextAddr: "nextAddr (snd (reflectSet w b k x)) = nextAddr w"
  by (auto simp: reflectSet_def store_def split: hobj.splits jsval.splits)

lemma reflectSet_heap: "y \<noteq> b \<Longrightarrow> heap (snd (reflectSet w b k x)) y = heap w y"
  by (auto simp: reflectSet_def store_def split: hobj.splits jsval.splits)




lemma dotNotation_setReadOnly [simp]: "dotNotation (setReadOnly k r sch) = dotNotation sch"
  by (simp add: setReadOnly_def)

lemma dotNotation_schemaAdd [simp]: "dotNotation (schemaAdd k p sch) = dotNotation sch"
  by (simp add: schemaAdd_def)


lemma slot_store:
  "slot K b s w \<Longrightarrow> schemaRef i' = s \<Longrightarrow> K \<subseteq> set (getset i') \<Longrightarrow>
     slot K b s (store w b (HModel i'))"
  by (auto simp: slot_def store_def)
















subsection \<open>Writes\<close>





text \<open>
  C7, at the failing input. \<^verbatim>\<open>set({hasOwnProperty: 1})\<close>: the call
  \<^verbatim>\<open>value.hasOwnProperty(key)\<close> of line 211 is outside the \<^verbatim>\<open>try\<close> block and finds
  the number 1 where it expects the method; the \<^verbatim>\<open>TypeError\<close> leaves \<^verbatim>\<open>set\<close>.
\<close>

theorem set_throws_on_own_hasOwnProperty:
  "set_impl nodeEnv dataWorld 1 (Ref 2) Undefined = (Some TypeError, dataWorld)"
  by (simp add: model_defs dataWorld_def)

text \<open>
  C10. On a document whose class extends the emitter, a write to a name that the schema
  does not declare and that is a property name of an emitter is accepted and changes
  nothing: the trap returns true, \<^verbatim>\<open>set\<close> returns normally, and the state (the value
  store and the shared schema with it) is the one before, whatever \<^verbatim>\<open>strict\<close> says.
  (A name with a dot is a path when the schema has dot notation. The name is none that
  the descriptor inherits from \<^verbatim>\<open>Object.prototype\<close>, as no property name of an emitter
  is.)
\<close>

theorem emitter_internal_write_is_noop:
  assumes "heap w a = HModel inst"
    and "extendEventEmitter inst"
    and "map_of (descriptor (schemas w (schemaRef inst))) name = None"
    and "name \<in> set (eventEmmiterInternals env)"
    and "dotNotation (schemas w (schemaRef inst)) \<longrightarrow> CHR ''.'' \<notin> set name"
    and "name \<notin> set objectPrototypeMembers"
  shows "proxySet env w a name v = (Inr True, w) \<and> set_impl env w a (Str name) v = (None, w)"
  using assms
  by (auto simp: proxySet_def set_impl_def toPropertyKey_def tryAssign_def proxyAssign_def Let_def
        inDescriptor_def)

theorem emitter_internal_write_is_noop_witness:
  "\<not> strict (schemas dataWorld 0)
   \<and> proxySet nodeEnv dataWorld 1 ''_maxListeners'' (Num 5) = (Inr True, dataWorld)
   \<and> set_impl nodeEnv dataWorld 1 (Str ''_maxListeners'') (Num 5) = (None, dataWorld)"
  using emitter_internal_write_is_noop
    [of dataWorld 1 dataDoc "''_maxListeners''" nodeEnv "Num 5"]
  by (simp add: dataWorld_def dataDoc_def nodeEnv_def plainSchema_def anyDescriptor_def
        objectPrototypeMembers_def)

end
